theory Spec2Isabelle
  imports Main
begin

section \<open>Tags on accounts (store/balances/actions.ts)\<close>

text \<open>
  \<^verbatim>\<open>Array.prototype.indexOf\<close>: the first position of the element, or \<open>-1\<close> when the
  array does not hold it.
\<close>

fun indexOf :: "'a list \<Rightarrow> 'a \<Rightarrow> int" where
  "indexOf [] x = -1"
| "indexOf (y # ys) x =
     (if y = x then 0 else (let i = indexOf ys x in if i < 0 then -1 else i + 1))"

text \<open>
  \<^verbatim>\<open>function removeTag(tags: string[] | null, tagName: string): string[] | null\<close>.
  A null list is \<open>None\<close>. \<^verbatim>\<open>!tags\<close> holds of null only: an empty array is truthy.
\<close>

definition removeTag :: "string list option \<Rightarrow> string \<Rightarrow> string list option" where
  "removeTag tags tagName =
     (case tags of
        None \<Rightarrow> None
      | Some ts \<Rightarrow>
          (let index = indexOf ts tagName
           in if index < 0 then None
              else Some (take (nat index) ts @ drop (nat (index + 1)) ts)))"

text \<open>
  \<^verbatim>\<open>T extends { tags: string[] | null }\<close> is an extensible record: every account type
  below extends it.
\<close>

record has_tags =
  tags :: "string list option"

record general_account_data = has_tags +
  address :: string
  label :: "string option"

record xpub_account_data = has_tags +
  xpub :: string
  derivationPath :: "string option"
  xpub_label :: "string option"
  addresses :: "general_account_data list option"

record btc_account_data =
  standalone :: "general_account_data list"
  xpubs :: "xpub_account_data list"

text \<open>
  \<^verbatim>\<open>removeTags\<close>: the loop over the indices of a copy of the array. An account whose
  \<^verbatim>\<open>removeTag\<close> is null is skipped (\<^verbatim>\<open>continue\<close>); any other is replaced by a copy
  holding the new tags.
\<close>

function removeTags_loop ::
  "nat \<Rightarrow> ('a has_tags_scheme) list \<Rightarrow> string \<Rightarrow> ('a has_tags_scheme) list" where
  "removeTags_loop i accounts tagName =
     (if i < length accounts then
        (let account = accounts ! i
         in case removeTag (tags account) tagName of
              None \<Rightarrow> removeTags_loop (i + 1) accounts tagName
            | Some ts \<Rightarrow>
                removeTags_loop (i + 1) (accounts[i := (accounts ! i)\<lparr>tags := Some ts\<rparr>]) tagName)
      else accounts)"
  by pat_completeness auto
termination
  by (relation "measure (\<lambda>(i, accounts, tagName). length accounts - i)") auto

declare removeTags_loop.simps [simp del]

definition removeTags :: "('a has_tags_scheme) list \<Rightarrow> string \<Rightarrow> ('a has_tags_scheme) list" where
  "removeTags data tagName = removeTags_loop 0 data tagName"

text \<open>
  The part of \<^verbatim>\<open>BalanceState\<close> the tag action reads and writes; the other fields of
  the state are the record's extension.
\<close>

record balance_state =
  ethAccounts :: "general_account_data list"
  btcAccounts :: btc_account_data

text \<open>
  Modelled from the spec: the mutations \<^verbatim>\<open>ethAccounts\<close> and \<^verbatim>\<open>btcAccounts\<close> of the
  balances store module are not among the sources; a commit of either stores its payload
  in the field of the same name ("commits the result into domain state").
\<close>

definition commit_ethAccounts ::
  "general_account_data list \<Rightarrow> 'a balance_state_scheme \<Rightarrow> 'a balance_state_scheme" where
  "commit_ethAccounts payload state = state\<lparr>ethAccounts := payload\<rparr>"

definition commit_btcAccounts ::
  "btc_account_data \<Rightarrow> 'a balance_state_scheme \<Rightarrow> 'a balance_state_scheme" where
  "commit_btcAccounts payload state = state\<lparr>btcAccounts := payload\<rparr>"

text \<open>
  The loop of the action \<^verbatim>\<open>removeTag\<close> over \<^verbatim>\<open>btcAccounts.xpubs\<close>: every xpub is
  pushed with its tags replaced by \<^verbatim>\<open>removeTag(xpub.tags, tagName)\<close>, whatever that
  returns, and its addresses run through \<^verbatim>\<open>removeTags\<close> when it has any.
\<close>

fun removeTag_xpubs :: "xpub_account_data list \<Rightarrow> string \<Rightarrow> xpub_account_data list" where
  "removeTag_xpubs [] tagName = []"
| "removeTag_xpubs (x # rest) tagName =
     x\<lparr>tags := removeTag (tags x) tagName,
       addresses := (case addresses x of
                       None \<Rightarrow> None
                     | Some as \<Rightarrow> Some (removeTags as tagName))\<rparr>
     # removeTag_xpubs rest tagName"

definition removeTag_action :: "'a balance_state_scheme \<Rightarrow> string \<Rightarrow> 'a balance_state_scheme" where
  "removeTag_action state tagName =
     (let state1 = commit_ethAccounts (removeTags (ethAccounts state) tagName) state;
          btc = btcAccounts state1;
          standalone' = removeTags (standalone btc) tagName;
          xpubs' = removeTag_xpubs (xpubs btc) tagName
      in commit_btcAccounts \<lparr>standalone = standalone', xpubs = xpubs'\<rparr> state1)"

definition retag :: "string \<Rightarrow> 'a has_tags_scheme \<Rightarrow> 'a has_tags_scheme" where
  "retag tagName account =
     (case removeTag (tags account) tagName of
        None \<Rightarrow> account
      | Some ts \<Rightarrow> account\<lparr>tags := Some ts\<rparr>)"

definition carries_tag :: "string \<Rightarrow> 'a has_tags_scheme \<Rightarrow> bool" where
  "carries_tag tagName account =
     (case tags account of None \<Rightarrow> False | Some ts \<Rightarrow> tagName \<in> set ts)"

definition tag_example_state :: balance_state where
  "tag_example_state =
     \<lparr>ethAccounts = [\<lparr>tags = Some [''savings''], address = ''0xabc'', label = None\<rparr>],
      btcAccounts =
        \<lparr>standalone = [\<lparr>tags = None, address = ''bc1q'', label = Some ''cold''\<rparr>],
         xpubs = [\<lparr>tags = Some [''savings'', ''cold''], xpub = ''xpub6C'',
                   derivationPath = None, xpub_label = None,
                   addresses = Some [\<lparr>tags = Some [''cold''], address = ''bc1p'', label = None\<rparr>]\<rparr>]\<rparr>\<rparr>"

section \<open>Tasks, results and the store the task manager works on\<close>

text \<open>
  A result payload is whatever JSON the backend sent (\<^verbatim>\<open>ActionResult<any>\<close>); the
  synthetic results of the task manager carry the empty object \<^verbatim>\<open>{}\<close>, \<open>JObj []\<close>.
\<close>

datatype json =
  JNull
| JBool bool
| JNum int
| JStr string
| JArr "json list"
| JObj "(string \<times> json) list"

record action_result =
  result :: json
  message :: string

text \<open>
  What a promise rejects with or a call throws. The code tells errors apart only by
  \<^verbatim>\<open>e instanceof TaskNotFoundError\<close> and reads only \<^verbatim>\<open>e.message\<close>.
\<close>

datatype exn = Error string | TaskNotFoundError string

fun exn_message :: "exn \<Rightarrow> string" where
  "exn_message (Error m) = m"
| "exn_message (TaskNotFoundError m) = m"

datatype severity = INFO | WARNING | ERROR

record notification =
  n_message :: string
  n_title :: string
  n_severity :: severity
  n_display :: bool

text \<open>
  \<^verbatim>\<open>TaskMeta\<close> with the fields the sources read or set: an absent
  \<^verbatim>\<open>ignoreResult\<close> is falsy, so it is \<open>False\<close>; an absent description, key list or
  blockchain is \<open>None\<close>. A task's id is \<open>None\<close> when it is null or missing.
\<close>

record task_meta =
  title :: string
  description :: "string option"
  numericKeys :: "string list option"
  ignoreResult :: bool
  blockchain :: "string option"

record task =
  task_id :: "nat option"
  task_type :: string
  meta :: task_meta

text \<open>
  Numbers and optional values inside template literals: \<^verbatim>\<open>`${7}`\<close> is \<open>''7''\<close>,
  \<^verbatim>\<open>`${null}`\<close> is \<open>''null''\<close>, \<^verbatim>\<open>`${undefined}`\<close> is \<open>''undefined''\<close>.
\<close>

definition digit :: "nat \<Rightarrow> char" where
  "digit n = ''0123456789'' ! (n mod 10)"

function show_nat :: "nat \<Rightarrow> string" where
  "show_nat n = (if n < 10 then [digit n] else show_nat (n div 10) @ [digit n])"
  by pat_completeness auto
termination
  by (relation "measure id") auto

declare show_nat.simps [simp del]

definition show_id :: "nat option \<Rightarrow> string" where
  "show_id tid = (case tid of None \<Rightarrow> ''null'' | Some i \<Rightarrow> show_nat i)"

definition show_description :: "string option \<Rightarrow> string" where
  "show_description d = (case d of None \<Rightarrow> ''undefined'' | Some text \<Rightarrow> text)"

definition json_of_id :: "nat option \<Rightarrow> json" where
  "json_of_id tid = (case tid of None \<Rightarrow> JNull | Some i \<Rightarrow> JNum (int i))"

text \<open>
  \<^verbatim>\<open>i18n.tc(key, choice, values)\<close>: the translation library and the locale file are not
  among the sources, so the rendering function is a parameter of everything that
  translates. \<open>tc_key\<close> is the rendering of a locale with no entries, which returns
  the key; the concrete examples below use it.
\<close>

type_synonym i18n = "string \<Rightarrow> nat \<Rightarrow> (string \<times> json) list \<Rightarrow> string"

definition tc_key :: i18n where
  "tc_key key choice values = key"

text \<open>
  A handler is a callback \<^verbatim>\<open>(result, meta) => void\<close>. It returns or throws, and on
  the way it may change the part of the store outside the tasks module, \<open>'w\<close>.
\<close>

type_synonym 'w handler_fn = "action_result \<Rightarrow> task_meta \<Rightarrow> 'w \<Rightarrow> exn option \<times> 'w"

text \<open>
  What the task manager reads and writes: the tasks module of the store (\<open>tasks\<close> in the
  registry's iteration order, and \<open>locked\<close>), its own table \<^verbatim>\<open>handler\<close>, and the
  notifications it has emitted. \<open>invoked\<close> records each handler call: the key the
  handler was found under and the result it was given.
\<close>

record 'w system =
  tasks :: "task list"
  locked :: "nat list"
  handler :: "string \<rightharpoonup> 'w handler_fn"
  notifications :: "notification list"
  invoked :: "(string \<times> action_result) list"
  world :: 'w

text \<open>
  Modelled from the spec: the mutations \<^verbatim>\<open>tasks/add\<close>, \<^verbatim>\<open>tasks/lock\<close>,
  \<^verbatim>\<open>tasks/unlock\<close> and \<^verbatim>\<open>tasks/remove\<close> of the tasks store module are not among the
  sources. The registry is a mapping from id to task and \<open>locked\<close> a set of ids: adding
  stores the task under its id, locking adds the id, unlocking takes it out, and removing
  deletes the task stored under the id ("unlock is implicit (task removed)").
\<close>

definition tasks_add :: "task \<Rightarrow> 'w system \<Rightarrow> 'w system" where
  "tasks_add t s = s\<lparr>tasks := filter (\<lambda>u. task_id u \<noteq> task_id t) (tasks s) @ [t]\<rparr>"

definition tasks_lock :: "nat \<Rightarrow> 'w system \<Rightarrow> 'w system" where
  "tasks_lock i s = s\<lparr>locked := locked s @ [i]\<rparr>"

definition tasks_unlock :: "nat option \<Rightarrow> 'w system \<Rightarrow> 'w system" where
  "tasks_unlock tid s = s\<lparr>locked := filter (\<lambda>j. Some j \<noteq> tid) (locked s)\<rparr>"

definition tasks_remove :: "nat option \<Rightarrow> 'w system \<Rightarrow> 'w system" where
  "tasks_remove tid s =
     tasks_unlock tid (s\<lparr>tasks := filter (\<lambda>u. task_id u \<noteq> tid) (tasks s)\<rparr>)"

text \<open>
  Modelled from the spec: \<^verbatim>\<open>notify(message, title, severity, display)\<close> of the
  notifications store module is not among the sources; it "emits" a notification, which
  is appended to those emitted so far. A call without the fourth argument leaves
  \<^verbatim>\<open>display\<close> undefined, which is \<open>False\<close>.
\<close>

definition notify :: "string \<Rightarrow> string \<Rightarrow> severity \<Rightarrow> bool \<Rightarrow> 'w system \<Rightarrow> 'w system" where
  "notify msg ttl sev display s =
     s\<lparr>notifications := notifications s @
          [\<lparr>n_message = msg, n_title = ttl, n_severity = sev, n_display = display\<rparr>]\<rparr>"

section \<open>The task manager (TaskManager)\<close>

subsection \<open>registerHandler and unregisterHandler\<close>

text \<open>
  \<^verbatim>\<open>const identifier = taskId ? `${task}-${taskId}` : task\<close>: an absent and an empty
  \<^verbatim>\<open>taskId\<close> are both falsy.
\<close>

definition handler_identifier :: "string \<Rightarrow> string option \<Rightarrow> string" where
  "handler_identifier task taskId =
     (case taskId of
        None \<Rightarrow> task
      | Some tid \<Rightarrow> if tid = [] then task else task @ ''-'' @ tid)"

definition registerHandler ::
  "string \<Rightarrow> 'w handler_fn \<Rightarrow> string option \<Rightarrow> 'w system \<Rightarrow> 'w system" where
  "registerHandler task handlerImpl taskId s =
     s\<lparr>handler := (handler s)(handler_identifier task taskId \<mapsto> handlerImpl)\<rparr>"

definition unregisterHandler :: "string \<Rightarrow> string option \<Rightarrow> 'w system \<Rightarrow> 'w system" where
  "unregisterHandler task taskId s =
     s\<lparr>handler := (handler s)(handler_identifier task taskId := None)\<rparr>"

subsection \<open>handleResult\<close>

text \<open>
  \<^verbatim>\<open>this.handler[task.type] ?? this.handler[`${task.type}-${task.id}`]\<close>: the entry
  under the type when there is one, otherwise the entry under type and id. The key is
  returned with the handler for the record of invocations.
\<close>

definition find_handler :: "'w system \<Rightarrow> task \<Rightarrow> (string \<times> 'w handler_fn) option" where
  "find_handler s task =
     (case handler s (task_type task) of
        Some h \<Rightarrow> Some (task_type task, h)
      | None \<Rightarrow>
          (case handler s (task_type task @ ''-'' @ show_id (task_id task)) of
             Some h \<Rightarrow> Some (task_type task @ ''-'' @ show_id (task_id task), h)
           | None \<Rightarrow> None))"

text \<open>A call \<^verbatim>\<open>handler(result, task.meta)\<close>: its outcome, its effect, and the record.\<close>

definition invoke ::
  "string \<Rightarrow> 'w handler_fn \<Rightarrow> action_result \<Rightarrow> task_meta \<Rightarrow> 'w system \<Rightarrow>
   exn option \<times> 'w system" where
  "invoke key h r m s =
     (case h r m (world s) of
        (thrown, w) \<Rightarrow> (thrown, s\<lparr>world := w, invoked := invoked s @ [(key, r)]\<rparr>))"

definition error_result :: "i18n \<Rightarrow> task \<Rightarrow> exn \<Rightarrow> action_result" where
  "error_result tc task e =
     \<lparr>result = JObj [],
      message = tc ''task_manager.error'' 0
        [(''taskId'', json_of_id (task_id task)),
         (''title'', JStr (title (meta task))),
         (''error'', JStr (exn_message e))]\<rparr>"

text \<open>
  The \<^verbatim>\<open>try\<close> statement of \<^verbatim>\<open>handleResult\<close> and the commit after it. The first
  component of the value is what the code throws, if anything: the second call of the
  handler, in the \<^verbatim>\<open>catch\<close> block, is not guarded, and \<^verbatim>\<open>tasks/remove\<close> after the
  \<^verbatim>\<open>try\<close> statement is then not reached.
\<close>

definition deliver ::
  "i18n \<Rightarrow> string \<Rightarrow> 'w handler_fn \<Rightarrow> action_result \<Rightarrow> task \<Rightarrow> 'w system \<Rightarrow>
   exn option \<times> 'w system" where
  "deliver tc key h r task s =
     (case invoke key h r (meta task) s of
        (None, s1) \<Rightarrow> (None, tasks_remove (task_id task) s1)
      | (Some e, s1) \<Rightarrow>
          (case invoke key h (error_result tc task e) (meta task) s1 of
             (None, s2) \<Rightarrow> (None, tasks_remove (task_id task) s2)
           | (Some e2, s2) \<Rightarrow> (Some e2, s2)))"

definition no_handler_notification :: "task \<Rightarrow> notification" where
  "no_handler_notification task =
     \<lparr>n_message = ''No handler found for task '' @ [CHR 0x27] @ task_type task @ [CHR 0x27]
        @ '' with id '' @ show_id (task_id task),
      n_title = ''Tasks'', n_severity = INFO, n_display = False\<rparr>"

text \<open>\<^verbatim>\<open>handleResult(result, task)\<close>; a null \<^verbatim>\<open>result\<close> is \<open>None\<close>.\<close>

definition handleResult ::
  "i18n \<Rightarrow> action_result option \<Rightarrow> task \<Rightarrow> 'w system \<Rightarrow> exn option \<times> 'w system" where
  "handleResult tc res task s =
     (if ignoreResult (meta task) then (None, tasks_remove (task_id task) s)
      else case res of
        None \<Rightarrow> (None, s)
      | Some r \<Rightarrow>
          (case find_handler s task of
             None \<Rightarrow>
               (None,
                tasks_remove (task_id task)
                  (notify
                     (''No handler found for task '' @ [CHR 0x27] @ task_type task @ [CHR 0x27]
                        @ '' with id '' @ show_id (task_id task))
                     ''Tasks'' INFO False s))
           | Some (key, h) \<Rightarrow> deliver tc key h r task s))"

subsection \<open>monitor\<close>

text \<open>
  A request \<^verbatim>\<open>api.queryTaskResult(task.id, task.meta.numericKeys)\<close> that \<^verbatim>\<open>monitor\<close>
  has sent, with the task its callbacks close over.
\<close>

record poll =
  poll_id :: nat
  poll_numericKeys :: "string list option"
  poll_task :: task

text \<open>
  The loop of \<^verbatim>\<open>monitor\<close> over the registry. \<open>lockedv\<close> is the array
  \<^verbatim>\<open>locked\<close> that \<^verbatim>\<open>monitor\<close> takes out of the state before the loop and tests
  with \<^verbatim>\<open>indexOf\<close>; the commits of \<^verbatim>\<open>tasks/lock\<close> go to the state. Whether such a
  commit is seen through \<open>lockedv\<close> is the tasks module's business; the two readings
  agree on a registry whose ids are distinct, as those of a mapping from id to task are.
  The value is the requests sent, in order, and the state after the loop.
\<close>

definition null_id_notification :: "task \<Rightarrow> notification" where
  "null_id_notification task =
     \<lparr>n_message = ''Task '' @ task_type task @ '' -> ''
        @ show_description (description (meta task)) @ '' had a null identifier'',
      n_title = ''Invalid task found'', n_severity = WARNING, n_display = False\<rparr>"

fun monitor_loop :: "nat list \<Rightarrow> task list \<Rightarrow> 'w system \<Rightarrow> poll list \<times> 'w system" where
  "monitor_loop lockedv [] s = ([], s)"
| "monitor_loop lockedv (task # rest) s =
     (case task_id task of
        None \<Rightarrow>
          monitor_loop lockedv rest
            (notify
               (''Task '' @ task_type task @ '' -> '' @ show_description (description (meta task))
                  @ '' had a null identifier'')
               ''Invalid task found'' WARNING False s)
      | Some i \<Rightarrow>
          if indexOf lockedv i > -1 then monitor_loop lockedv rest s
          else
            (case monitor_loop lockedv rest (tasks_lock i s) of
               (polls, s') \<Rightarrow>
                 (\<lparr>poll_id = i, poll_numericKeys = numericKeys (meta task), poll_task = task\<rparr>
                    # polls, s')))"

definition monitor :: "'w system \<Rightarrow> poll list \<times> 'w system" where
  "monitor s = monitor_loop (locked s) (tasks s) s"

text \<open>
  The ids \<^verbatim>\<open>monitor\<close> polls from a registry with the array \<open>lockedv\<close>: those of the
  tasks with an id outside \<open>lockedv\<close>.
\<close>

fun fresh_ids :: "nat list \<Rightarrow> task list \<Rightarrow> nat list" where
  "fresh_ids lockedv [] = []"
| "fresh_ids lockedv (task # rest) =
     (case task_id task of
        None \<Rightarrow> fresh_ids lockedv rest
      | Some i \<Rightarrow> if i \<in> set lockedv then fresh_ids lockedv rest
                  else i # fresh_ids lockedv rest)"

subsection \<open>The callbacks of a poll\<close>

definition not_found_result :: "i18n \<Rightarrow> task \<Rightarrow> action_result" where
  "not_found_result tc task =
     \<lparr>result = JObj [],
      message = tc ''task_manager.not_found'' 0
        [(''taskId'', json_of_id (task_id task)),
         (''title'', JStr (title (meta task)))]\<rparr>"

text \<open>
  The \<^verbatim>\<open>catch\<close> callback: the task is unlocked whatever the error; a
  \<^verbatim>\<open>TaskNotFoundError\<close> also removes it and hands the synthetic result to
  \<^verbatim>\<open>handleResult\<close>. What that call throws leaves the callback.
\<close>

definition poll_rejected :: "i18n \<Rightarrow> exn \<Rightarrow> task \<Rightarrow> 'w system \<Rightarrow> exn option \<times> 'w system" where
  "poll_rejected tc e task s =
     (let s1 = tasks_unlock (task_id task) s
      in case e of
           TaskNotFoundError m \<Rightarrow>
             handleResult tc (Some (not_found_result tc task)) task
               (tasks_remove (task_id task) s1)
         | Error m \<Rightarrow> (None, s1))"

text \<open>
  \<^verbatim>\<open>.then(result => this.handleResult(result, task)).catch(e => ...)\<close>: the
  \<^verbatim>\<open>catch\<close> callback receives the rejection of the request and also whatever
  \<^verbatim>\<open>handleResult\<close> throws in the \<^verbatim>\<open>then\<close> callback.
\<close>

definition poll_settled ::
  "i18n \<Rightarrow> exn + action_result option \<Rightarrow> task \<Rightarrow> 'w system \<Rightarrow> exn option \<times> 'w system" where
  "poll_settled tc reply task s =
     (case reply of
        Inl e \<Rightarrow> poll_rejected tc e task s
      | Inr r \<Rightarrow>
          (case handleResult tc r task s of
             (None, s') \<Rightarrow> (None, s')
           | (Some e, s') \<Rightarrow> poll_rejected tc e task s'))"

section \<open>The API client: queryTaskResult (services/rotkehlchen-api.ts)\<close>

text \<open>
  What the HTTP request comes back with: no response at all, or a response with a
  status and a body.
\<close>

record 'd response =
  status :: nat
  data :: 'd

datatype 'd axios_reply = NetworkError string | Response "'d response"

text \<open>
  The promise of \<^verbatim>\<open>axios.get\<close>, as the HTTP library documents it: the body goes through
  \<^verbatim>\<open>transformResponse\<close>, and the promise resolves with the response when
  \<^verbatim>\<open>validateStatus\<close> accepts the status and rejects with an error otherwise.
\<close>

definition axios_get ::
  "(nat \<Rightarrow> bool) \<Rightarrow> ('r \<Rightarrow> 'd) \<Rightarrow> 'r axios_reply \<Rightarrow> exn + 'd response" where
  "axios_get validateStatus transformResponse reply =
     (case reply of
        NetworkError m \<Rightarrow> Inl (Error m)
      | Response raw \<Rightarrow>
          if validateStatus (status raw)
          then Inr \<lparr>status = status raw, data = transformResponse (data raw)\<rparr>
          else Inl (Error (''Request failed with status code '' @ show_nat (status raw))))"

text \<open>\<^verbatim>\<open>TaskResult<T>\<close>: the only field the code reads is \<^verbatim>\<open>outcome\<close>.\<close>

record task_result =
  outcome :: "action_result option"

text \<open>
  The helpers \<^verbatim>\<open>validTaskStatus\<close>, \<^verbatim>\<open>setupTransformer\<close> and \<^verbatim>\<open>handleResponse\<close> of
  \<^verbatim>\<open>services/utils\<close> and \<^verbatim>\<open>services/axios-tranformers\<close>, and the default
  \<^verbatim>\<open>transformResponse\<close> of the axios instance, are not among the sources: they are
  parameters. \<^verbatim>\<open>handleResponse\<close> returns the unwrapped envelope or throws an
  \<^verbatim>\<open>Error\<close> with a message (\<open>Inl\<close> of the message).
\<close>

record ('r, 'd) task_api =
  validTaskStatus :: "nat \<Rightarrow> bool"
  setupTransformer :: "string list \<Rightarrow> 'r \<Rightarrow> 'd"
  defaultTransformResponse :: "'r \<Rightarrow> 'd"
  handleResponse :: "'d response \<Rightarrow> string + task_result"

text \<open>
  \<^verbatim>\<open>numericKeys ? setupTransformer(numericKeys) : this.axios.defaults.transformResponse\<close>:
  any array is truthy, an absent argument is not.
\<close>

definition transformer_for :: "('r, 'd) task_api \<Rightarrow> string list option \<Rightarrow> 'r \<Rightarrow> 'd" where
  "transformer_for api keys =
     (case keys of
        Some ks \<Rightarrow> setupTransformer api ks
      | None \<Rightarrow> defaultTransformResponse api)"

text \<open>
  \<^verbatim>\<open>queryTaskResult(id, numericKeys)\<close>: the value is what the returned promise
  settles with, \<open>Inl\<close> for a rejection.
\<close>

definition queryTaskResult ::
  "('r, 'd) task_api \<Rightarrow> nat \<Rightarrow> string list option \<Rightarrow> 'r axios_reply \<Rightarrow> exn + action_result" where
  "queryTaskResult api taskId keys reply =
     (case axios_get (validTaskStatus api) (transformer_for api keys) reply of
        Inl e \<Rightarrow> Inl e
      | Inr response \<Rightarrow>
          if status response = 404
          then Inl (TaskNotFoundError (''Task with id '' @ show_nat taskId @ '' not found''))
          else
            (case handleResponse api response of
               Inl m \<Rightarrow> Inl (Error m)
             | Inr value \<Rightarrow>
                 (case outcome value of
                    Some out \<Rightarrow> Inr out
                  | None \<Rightarrow> Inl (Error ''No result''))))"

text \<open>
  An API for the examples: bodies are envelopes \<^verbatim>\<open>{ result, message }\<close> already
  decoded, the statuses 200, 400, 404 and 500 are accepted, and \<^verbatim>\<open>handleResponse\<close>
  returns the result of the envelope when there is one and throws its message otherwise.
\<close>

definition example_api ::
  "(task_result option \<times> string, task_result option \<times> string) task_api" where
  "example_api =
     \<lparr>validTaskStatus = (\<lambda>code. code \<in> {200, 400, 404, 500}),
      setupTransformer = (\<lambda>keys body. body),
      defaultTransformResponse = (\<lambda>body. body),
      handleResponse = (\<lambda>response.
         case fst (data response) of
           Some r \<Rightarrow> Inr r
         | None \<Rightarrow> Inl (snd (data response)))\<rparr>"

section \<open>The account actions of the balances store (store/balances/actions.ts)\<close>

text \<open>\<^verbatim>\<open>BlockchainAccountPayload\<close>, without the optional xpub the two actions do not read.\<close>

record account_payload =
  payload_address :: string
  payload_label :: "string option"
  payload_tags :: "string list"
  payload_blockchain :: string

text \<open>
  What an account action calls and awaits but the sources do not hold: the two API
  calls, which reject or resolve with a task id; \<^verbatim>\<open>taskCompletion\<close>, which settles
  after the task manager has worked on the store; the dispatched actions
  \<^verbatim>\<open>updateBalances\<close> and \<^verbatim>\<open>resetDefiStatus\<close> and the mutation \<^verbatim>\<open>defi/reset\<close>; the
  two members of \<^verbatim>\<open>TaskType\<close> and the constant \<^verbatim>\<open>blockchainBalanceKeys\<close>. They are
  parameters; each awaited call gives what its promise settles with.
\<close>

record 'w account_calls =
  ADD_ACCOUNT :: string
  REMOVE_ACCOUNT :: string
  blockchainBalanceKeys :: "string list"
  addBlockchainAccount :: "account_payload \<Rightarrow> exn + nat"
  removeBlockchainAccount :: "string \<Rightarrow> string \<Rightarrow> exn + nat"
  taskCompletion :: "string \<Rightarrow> 'w system \<Rightarrow> (exn + json) \<times> 'w system"
  updateBalances :: "string \<Rightarrow> json \<Rightarrow> 'w system \<Rightarrow> exn option \<times> 'w system"
  defi_reset :: "'w system \<Rightarrow> 'w system"
  resetDefiStatus :: "'w system \<Rightarrow> exn option \<times> 'w system"

text \<open>
  Modelled from the spec: \<^verbatim>\<open>createTask\<close> of \<^verbatim>\<open>model/task\<close> is not among the sources;
  a task is \<^verbatim>\<open>{ id, type, meta }\<close>.
\<close>

definition createTask :: "nat \<Rightarrow> string \<Rightarrow> task_meta \<Rightarrow> task" where
  "createTask taskId taskType m = \<lparr>task_id = Some taskId, task_type = taskType, meta = m\<rparr>"

text \<open>
  \<^verbatim>\<open>removeAccount\<close>. The first component of the value is what the promise of the
  action rejects with, if it does. The API call is awaited before the \<^verbatim>\<open>try\<close>
  statement: its rejection is the action's. Whatever is thrown inside the \<^verbatim>\<open>try\<close>
  block ends in the \<^verbatim>\<open>catch\<close> block, which notifies.
\<close>

definition removeAccount ::
  "i18n \<Rightarrow> 'w account_calls \<Rightarrow> account_payload \<Rightarrow> 'w system \<Rightarrow> exn option \<times> 'w system" where
  "removeAccount tc calls payload s =
     (case removeBlockchainAccount calls (payload_blockchain payload) (payload_address payload) of
        Inl e \<Rightarrow> (Some e, s)
      | Inr taskId \<Rightarrow>
          (let taskType = REMOVE_ACCOUNT calls;
               task = createTask taskId taskType
                 \<lparr>title = tc ''actions.balances.blockchain_account_removal.task.title'' 0
                     [(''blockchain'', JStr (payload_blockchain payload))],
                  description = Some
                    (tc ''actions.balances.blockchain_account_removal.task.description'' 0
                       [(''address'', JStr (payload_address payload))]),
                  numericKeys = Some (blockchainBalanceKeys calls),
                  ignoreResult = False,
                  blockchain = Some (payload_blockchain payload)\<rparr>;
               attempt =
                 (case taskCompletion calls taskType (tasks_add task s) of
                    (Inl e, s2) \<Rightarrow> (Some e, s2)
                  | (Inr balances, s2) \<Rightarrow>
                      (case updateBalances calls (payload_blockchain payload) balances s2 of
                         (Some e, s3) \<Rightarrow> (Some e, s3)
                       | (None, s3) \<Rightarrow> resetDefiStatus calls (defi_reset calls s3)))
           in case attempt of
                (None, s') \<Rightarrow> (None, s')
              | (Some e, s') \<Rightarrow>
                  (None,
                   notify
                     (tc ''actions.balances.blockchain_account_removal.error.description'' 0
                        [(''error'', JStr (exn_message e))])
                     (tc ''actions.balances.blockchain_account_removal.error.title'' 0
                        [(''address'', JStr (payload_address payload)),
                         (''blockchain'', JStr (payload_blockchain payload))])
                     ERROR True s')))"

text \<open>\<^verbatim>\<open>addAccount\<close>: here the API call is the first statement inside the \<^verbatim>\<open>try\<close> block.\<close>

definition addAccount ::
  "i18n \<Rightarrow> 'w account_calls \<Rightarrow> account_payload \<Rightarrow> 'w system \<Rightarrow> exn option \<times> 'w system" where
  "addAccount tc calls payload s =
     (let taskType = ADD_ACCOUNT calls;
          attempt =
            (case addBlockchainAccount calls payload of
               Inl e \<Rightarrow> (Some e, s)
             | Inr taskId \<Rightarrow>
                 (let task = createTask taskId taskType
                        \<lparr>title = tc ''actions.balances.blockchain_account_add.task.title'' 0
                            [(''blockchain'', JStr (payload_blockchain payload))],
                         description = Some
                           (tc ''actions.balances.blockchain_account_add.task.description'' 0
                              [(''address'', JStr (payload_address payload))]),
                         numericKeys = Some (blockchainBalanceKeys calls),
                         ignoreResult = False,
                         blockchain = Some (payload_blockchain payload)\<rparr>
                  in case taskCompletion calls taskType (tasks_add task s) of
                       (Inl e, s2) \<Rightarrow> (Some e, s2)
                     | (Inr balances, s2) \<Rightarrow>
                         (case updateBalances calls (payload_blockchain payload) balances s2 of
                            (Some e, s3) \<Rightarrow> (Some e, s3)
                          | (None, s3) \<Rightarrow> resetDefiStatus calls (defi_reset calls s3))))
      in case attempt of
           (None, s') \<Rightarrow> (None, s')
         | (Some e, s') \<Rightarrow>
             (None,
              notify
                (tc ''actions.balances.blockchain_account_add.error.description'' 0
                   [(''error'', JStr (exn_message e))])
                (tc ''actions.balances.blockchain_account_add.error.title'' 0
                   [(''address'', JStr (payload_address payload)),
                    (''blockchain'', JStr (payload_blockchain payload))])
                ERROR True s'))"

text \<open>
  A backend that cannot be reached: both API calls reject with a network error. The
  other calls are never reached.
\<close>

definition unreachable_backend :: "string list account_calls" where
  "unreachable_backend =
     \<lparr>ADD_ACCOUNT = ''ADD_ACCOUNT'', REMOVE_ACCOUNT = ''REMOVE_ACCOUNT'',
      blockchainBalanceKeys = [''amount'', ''usd_value''],
      addBlockchainAccount = (\<lambda>payload. Inl (Error ''Network Error'')),
      removeBlockchainAccount = (\<lambda>chain addr. Inl (Error ''Network Error'')),
      taskCompletion = (\<lambda>taskType s. (Inl (Error ''unreached''), s)),
      updateBalances = (\<lambda>chain balances s. (None, s)),
      defi_reset = (\<lambda>s. s),
      resetDefiStatus = (\<lambda>s. (None, s))\<rparr>"

definition eth_account_payload :: account_payload where
  "eth_account_payload =
     \<lparr>payload_address = ''0xabc'', payload_label = None, payload_tags = [],
      payload_blockchain = ''ETH''\<rparr>"

section \<open>Concrete tasks and handlers for the examples\<close>

text \<open>
  The string values of the enum \<^verbatim>\<open>TaskType\<close> are not among the sources: the examples
  use the names of its members. In the examples the rest of the store is a list of
  marks, and a handler leaves its mark there.
\<close>

definition marking_handler :: "string \<Rightarrow> string list handler_fn" where
  "marking_handler mark r m w = (None, w @ [mark])"

definition throwing_handler :: "string \<Rightarrow> string list handler_fn" where
  "throwing_handler msg r m w = (Some (Error msg), w @ [msg])"

definition empty_system :: "string list system" where
  "empty_system =
     \<lparr>tasks = [], locked = [], handler = Map.empty, notifications = [], invoked = [],
      world = []\<rparr>"

definition add_account_task :: task where
  "add_account_task =
     \<lparr>task_id = Some 9, task_type = ''ADD_ACCOUNT'',
      meta = \<lparr>title = ''Adding ETH account'', description = Some ''Adding 0xabc'',
               numericKeys = Some [''amount'', ''usd_value''], ignoreResult = False,
               blockchain = Some ''ETH''\<rparr>\<rparr>"

text \<open>The task \<^verbatim>\<open>fetchBalances\<close> creates: \<^verbatim>\<open>ignoreResult: true\<close> and a title only.\<close>

definition query_balances_task :: task where
  "query_balances_task =
     \<lparr>task_id = Some 7, task_type = ''QUERY_BALANCES'',
      meta = \<lparr>title = ''Query All Balances'', description = None, numericKeys = None,
               ignoreResult = True, blockchain = None\<rparr>\<rparr>"

definition null_id_task :: task where
  "null_id_task =
     \<lparr>task_id = None, task_type = ''QUERY_BALANCES'',
      meta = \<lparr>title = ''Query All Balances'', description = None, numericKeys = None,
               ignoreResult = True, blockchain = None\<rparr>\<rparr>"

definition balances_result :: action_result where
  "balances_result = \<lparr>result = JObj [(''ETH'', JStr ''1.5'')], message = ''''\<rparr>"

definition two_handlers :: "string list system" where
  "two_handlers =
     registerHandler ''ADD_ACCOUNT'' (marking_handler ''by type'') None
       (registerHandler ''ADD_ACCOUNT'' (marking_handler ''by type and id'') (Some ''9'')
          (tasks_add add_account_task empty_system))"

definition only_type_id_handler :: "string list system" where
  "only_type_id_handler =
     registerHandler ''ADD_ACCOUNT'' (marking_handler ''by type and id'') (Some ''9'')
       (tasks_add add_account_task empty_system)"

definition throwing_system :: "string list system" where
  "throwing_system =
     registerHandler ''ADD_ACCOUNT'' (throwing_handler ''boom'') None
       (tasks_add add_account_task empty_system)"

text \<open>
  A handler that cannot read the payload it is given and throws, but reports a result
  that carries a message.
\<close>

definition reporting_handler :: "string list handler_fn" where
  "reporting_handler r m w =
     (if message r = [] then (Some (Error ''unexpected payload''), w)
      else (None, w @ [message r]))"

definition reporting_system :: "string list system" where
  "reporting_system =
     registerHandler ''ADD_ACCOUNT'' reporting_handler None
       (tasks_add add_account_task empty_system)"

definition one_task_system :: "string list system" where
  "one_task_system = tasks_add add_account_task empty_system"

definition ignored_task_system :: "string list system" where
  "ignored_task_system =
     registerHandler ''QUERY_BALANCES'' (marking_handler ''balances'') None
       (tasks_lock 7 (tasks_add query_balances_task empty_system))"

definition marking_system :: "string list system" where
  "marking_system =
     registerHandler ''ADD_ACCOUNT'' (marking_handler ''done'') None
       (tasks_lock 9 (tasks_add add_account_task empty_system))"

definition null_task_system :: "string list system" where
  "null_task_system = tasks_add null_id_task empty_system"

definition two_task_system :: "string list system" where
  "two_task_system = tasks_add query_balances_task (tasks_add add_account_task empty_system)"

text \<open>
  Two stores in which a handler for a type has been registered and unregistered again:
  one holds the task \<^verbatim>\<open>fetchBalances\<close> creates, the other a task that also has a
  handler of its own id, as \<^verbatim>\<open>addAccounts\<close> registers them.
\<close>

definition unregistered_ignored_system :: "string list system" where
  "unregistered_ignored_system =
     unregisterHandler ''QUERY_BALANCES'' None
       (registerHandler ''QUERY_BALANCES'' (marking_handler ''balances'') None
          (tasks_add query_balances_task empty_system))"

definition unregistered_type_system :: "string list system" where
  "unregistered_type_system =
     unregisterHandler ''ADD_ACCOUNT'' None
       (registerHandler ''ADD_ACCOUNT'' (marking_handler ''by type'') None
          only_type_id_handler)"

section \<open>Properties of the tag helpers\<close>

lemma indexOf_ge: "- 1 \<le> indexOf xs x"
  by (induction xs) (auto simp: Let_def)

lemma indexOf_absent: "x \<notin> set xs \<Longrightarrow> indexOf xs x = - 1"
  by (induction xs) (auto simp: Let_def)

lemma indexOf_present: "x \<in> set xs \<Longrightarrow> 0 \<le> indexOf xs x"
  by (induction xs) (auto simp: Let_def)

lemma indexOf_less: "x \<in> set xs \<Longrightarrow> indexOf xs x < int (length xs)"
  by (induction xs) (auto simp: Let_def)

lemma indexOf_nth: "x \<in> set xs \<Longrightarrow> xs ! nat (indexOf xs x) = x"
proof (induction xs)
  case Nil
  then show ?case by simp
next
  case (Cons y ys)
  show ?case
  proof (cases "y = x")
    case True
    then show ?thesis by simp
  next
    case False
    with Cons.prems have mem: "x \<in> set ys" by simp
    from indexOf_present [OF mem] have "nat (indexOf ys x + 1) = Suc (nat (indexOf ys x))"
      by simp
    with False mem Cons.IH indexOf_present [OF mem] show ?thesis
      by (simp add: Let_def)
  qed
qed

lemma removeTag_absent: "tagName \<notin> set ts \<Longrightarrow> removeTag (Some ts) tagName = None"
  by (simp add: removeTag_def indexOf_absent)

lemma removeTag_present:
  "tagName \<in> set ts \<Longrightarrow>
   removeTag (Some ts) tagName =
     Some (take (nat (indexOf ts tagName)) ts @ drop (nat (indexOf ts tagName + 1)) ts)"
  using indexOf_present [of tagName ts] by (simp add: removeTag_def Let_def)

lemma removeTags_loop_map:
  "i \<le> length accounts \<Longrightarrow>
   removeTags_loop i accounts tagName = take i accounts @ map (retag tagName) (drop i accounts)"
proof (induction i accounts tagName rule: removeTags_loop.induct)
  case (1 i accounts tagName)
  show ?case
  proof (cases "i < length accounts")
    case False
    with "1.prems" show ?thesis by (simp add: removeTags_loop.simps)
  next
    case True
    then have split: "drop i accounts = accounts ! i # drop (Suc i) accounts"
      by (simp add: Cons_nth_drop_Suc)
    have tk: "take (Suc i) accounts = take i accounts @ [accounts ! i]"
      using True by (simp add: take_Suc_conv_app_nth)
    show ?thesis
    proof (cases "removeTag (tags (accounts ! i)) tagName")
      case None
      with True "1.IH"(1) [OF True refl None] show ?thesis
        by (simp add: removeTags_loop.simps [of i] split tk retag_def)
    next
      case (Some ts)
      let ?acc = "accounts[i := (accounts ! i)\<lparr>tags := Some ts\<rparr>]"
      have "removeTags_loop (i + 1) ?acc tagName =
              take (i + 1) ?acc @ map (retag tagName) (drop (i + 1) ?acc)"
        using True "1.IH"(2) [OF True refl Some] by simp
      moreover have "take (i + 1) ?acc = take i accounts @ [(accounts ! i)\<lparr>tags := Some ts\<rparr>]"
        using True by (simp add: take_Suc_conv_app_nth)
      moreover have "drop (i + 1) ?acc = drop (Suc i) accounts"
        by simp
      ultimately show ?thesis
        using True Some by (simp add: removeTags_loop.simps [of i] split retag_def)
    qed
  qed
qed

lemma removeTags_map: "removeTags accounts tagName = map (retag tagName) accounts"
  by (simp add: removeTags_def removeTags_loop_map)

lemma removeTag_not_carried: "\<not> carries_tag tagName account \<Longrightarrow> removeTag (tags account) tagName = None"
  by (cases "tags account") (simp_all add: carries_tag_def removeTag_def indexOf_absent)

lemma retag_not_carried: "\<not> carries_tag tagName account \<Longrightarrow> retag tagName account = account"
  by (simp add: retag_def removeTag_not_carried)

lemma removeTag_xpubs_length: "length (removeTag_xpubs xs tagName) = length xs"
  by (induction xs) simp_all

lemma removeTag_xpubs_nth:
  "i < length xs \<Longrightarrow>
   removeTag_xpubs xs tagName ! i =
     (xs ! i)\<lparr>tags := removeTag (tags (xs ! i)) tagName,
              addresses := (case addresses (xs ! i) of
                              None \<Rightarrow> None
                            | Some as \<Rightarrow> Some (removeTags as tagName))\<rparr>"
proof (induction xs arbitrary: i)
  case Nil
  then show ?case by simp
next
  case (Cons x xs)
  then show ?case by (cases i) simp_all
qed

lemma removeTag_action_fields:
  "ethAccounts (removeTag_action state tagName) = map (retag tagName) (ethAccounts state)"
  "standalone (btcAccounts (removeTag_action state tagName)) =
     map (retag tagName) (standalone (btcAccounts state))"
  "xpubs (btcAccounts (removeTag_action state tagName)) =
     removeTag_xpubs (xpubs (btcAccounts state)) tagName"
  by (simp_all add: removeTag_action_def commit_ethAccounts_def commit_btcAccounts_def
      removeTags_map Let_def)

text \<open>
  Claim C10. \<^verbatim>\<open>removeTag\<close> returns null for a null tag list and for a list that
  does not hold the tag. So the action \<^verbatim>\<open>removeTag\<close> sets the tags of every xpub
  account that does not carry the tag to null, whatever other tags it had, while the
  accounts that go through \<^verbatim>\<open>removeTags\<close> (eth accounts, standalone btc accounts, the
  addresses of an xpub) and do not carry the tag are left as they were.
\<close>

theorem removeTag_action_erases_xpub_tags:
  "removeTag None tagName = None \<and>
   (tagName \<notin> set ts \<longrightarrow> removeTag (Some ts) tagName = None) \<and>
   length (xpubs (btcAccounts (removeTag_action state tagName))) =
     length (xpubs (btcAccounts state)) \<and>
   (\<forall>i < length (xpubs (btcAccounts state)).
      \<not> carries_tag tagName (xpubs (btcAccounts state) ! i) \<longrightarrow>
      tags (xpubs (btcAccounts (removeTag_action state tagName)) ! i) = None) \<and>
   (\<forall>i < length (ethAccounts state).
      \<not> carries_tag tagName (ethAccounts state ! i) \<longrightarrow>
      ethAccounts (removeTag_action state tagName) ! i = ethAccounts state ! i) \<and>
   (\<forall>i < length (standalone (btcAccounts state)).
      \<not> carries_tag tagName (standalone (btcAccounts state) ! i) \<longrightarrow>
      standalone (btcAccounts (removeTag_action state tagName)) ! i =
        standalone (btcAccounts state) ! i) \<and>
   (\<forall>i < length (xpubs (btcAccounts state)). \<forall>as.
      addresses (xpubs (btcAccounts state) ! i) = Some as \<longrightarrow>
      (\<exists>as'. addresses (xpubs (btcAccounts (removeTag_action state tagName)) ! i) = Some as' \<and>
             length as' = length as \<and>
             (\<forall>j < length as. \<not> carries_tag tagName (as ! j) \<longrightarrow> as' ! j = as ! j)))"
proof (intro conjI allI impI)
  show "removeTag None tagName = None"
    by (simp add: removeTag_def)
next
  assume "tagName \<notin> set ts"
  then show "removeTag (Some ts) tagName = None"
    by (rule removeTag_absent)
next
  show "length (xpubs (btcAccounts (removeTag_action state tagName))) =
     length (xpubs (btcAccounts state))"
    by (simp add: removeTag_action_fields removeTag_xpubs_length)
next
  fix i
  assume "i < length (xpubs (btcAccounts state))"
    and "\<not> carries_tag tagName (xpubs (btcAccounts state) ! i)"
  then show "tags (xpubs (btcAccounts (removeTag_action state tagName)) ! i) = None"
    by (simp add: removeTag_action_fields removeTag_xpubs_nth removeTag_not_carried)
next
  fix i
  assume "i < length (ethAccounts state)"
    and "\<not> carries_tag tagName (ethAccounts state ! i)"
  then show "ethAccounts (removeTag_action state tagName) ! i = ethAccounts state ! i"
    by (simp add: removeTag_action_fields retag_not_carried)
next
  fix i
  assume "i < length (standalone (btcAccounts state))"
    and "\<not> carries_tag tagName (standalone (btcAccounts state) ! i)"
  then show "standalone (btcAccounts (removeTag_action state tagName)) ! i =
        standalone (btcAccounts state) ! i"
    by (simp add: removeTag_action_fields retag_not_carried)
next
  fix i as
  assume i: "i < length (xpubs (btcAccounts state))"
    and as: "addresses (xpubs (btcAccounts state) ! i) = Some as"
  have "addresses (xpubs (btcAccounts (removeTag_action state tagName)) ! i) =
          Some (map (retag tagName) as)"
    using i as by (simp add: removeTag_action_fields removeTag_xpubs_nth removeTags_map)
  moreover have "\<forall>j < length as. \<not> carries_tag tagName (as ! j) \<longrightarrow>
                   map (retag tagName) as ! j = as ! j"
    by (simp add: retag_not_carried)
  ultimately show "\<exists>as'. addresses (xpubs (btcAccounts (removeTag_action state tagName)) ! i) = Some as' \<and>
             length as' = length as \<and>
             (\<forall>j < length as. \<not> carries_tag tagName (as ! j) \<longrightarrow> as' ! j = as ! j)"
    by simp
qed

theorem removeTag_action_erases_xpub_tags_witness:
  "removeTag (Some [''savings'', ''cold'']) ''trading'' = None \<and>
   tags (xpubs (btcAccounts tag_example_state) ! 0) = Some [''savings'', ''cold''] \<and>
   tags (xpubs (btcAccounts (removeTag_action tag_example_state ''trading'')) ! 0) = None \<and>
   ethAccounts (removeTag_action tag_example_state ''trading'') ! 0 =
     ethAccounts tag_example_state ! 0 \<and>
   tags (ethAccounts (removeTag_action tag_example_state ''trading'') ! 0) = Some [''savings''] \<and>
   standalone (btcAccounts (removeTag_action tag_example_state ''trading'')) ! 0 =
     standalone (btcAccounts tag_example_state) ! 0 \<and>
   addresses (xpubs (btcAccounts (removeTag_action tag_example_state ''trading'')) ! 0) =
     addresses (xpubs (btcAccounts tag_example_state) ! 0)"
  using removeTag_action_erases_xpub_tags
    [of "''trading''" "[''savings'', ''cold'']" tag_example_state]
  by (simp add: tag_example_state_def carries_tag_def removeTag_action_fields removeTags_map
      retag_def removeTag_def)

section \<open>Properties of the task manager\<close>

lemma show_nat_digit: "n < 10 \<Longrightarrow> show_nat n = [digit n]"
  by (simp add: show_nat.simps)

lemma tasks_remove_fields [simp]:
  "tasks (tasks_remove tid s) = filter (\<lambda>u. task_id u \<noteq> tid) (tasks s)"
  "locked (tasks_remove tid s) = filter (\<lambda>j. Some j \<noteq> tid) (locked s)"
  "handler (tasks_remove tid s) = handler s"
  "notifications (tasks_remove tid s) = notifications s"
  "invoked (tasks_remove tid s) = invoked s"
  "world (tasks_remove tid s) = world s"
  by (simp_all add: tasks_remove_def tasks_unlock_def)

lemma tasks_unlock_fields [simp]:
  "tasks (tasks_unlock tid s) = tasks s"
  "locked (tasks_unlock tid s) = filter (\<lambda>j. Some j \<noteq> tid) (locked s)"
  "handler (tasks_unlock tid s) = handler s"
  "notifications (tasks_unlock tid s) = notifications s"
  "invoked (tasks_unlock tid s) = invoked s"
  "world (tasks_unlock tid s) = world s"
  by (simp_all add: tasks_unlock_def)

lemma tasks_lock_fields [simp]:
  "tasks (tasks_lock i s) = tasks s"
  "locked (tasks_lock i s) = locked s @ [i]"
  "handler (tasks_lock i s) = handler s"
  "notifications (tasks_lock i s) = notifications s"
  "invoked (tasks_lock i s) = invoked s"
  "world (tasks_lock i s) = world s"
  by (simp_all add: tasks_lock_def)

lemma notify_fields [simp]:
  "tasks (notify msg ttl sev d s) = tasks s"
  "locked (notify msg ttl sev d s) = locked s"
  "handler (notify msg ttl sev d s) = handler s"
  "notifications (notify msg ttl sev d s) =
     notifications s @ [\<lparr>n_message = msg, n_title = ttl, n_severity = sev, n_display = d\<rparr>]"
  "invoked (notify msg ttl sev d s) = invoked s"
  "world (notify msg ttl sev d s) = world s"
  by (simp_all add: notify_def)

lemma find_handler_cong:
  "handler s' = handler s \<Longrightarrow> find_handler s' task = find_handler s task"
  by (auto simp: find_handler_def split: option.splits)

lemma find_handler_type:
  "handler s (task_type task) = Some h \<Longrightarrow> find_handler s task = Some (task_type task, h)"
  by (simp add: find_handler_def)

lemma find_handler_type_id:
  "handler s (task_type task) = None \<Longrightarrow>
   handler s (task_type task @ ''-'' @ show_id (task_id task)) = Some h \<Longrightarrow>
   find_handler s task = Some (task_type task @ ''-'' @ show_id (task_id task), h)"
  by (simp add: find_handler_def)

lemma find_handler_none:
  "handler s (task_type task) = None \<Longrightarrow>
   handler s (task_type task @ ''-'' @ show_id (task_id task)) = None \<Longrightarrow>
   find_handler s task = None"
  by (simp add: find_handler_def)

text \<open>What a delivery does, by the outcome of the handler's calls.\<close>

lemma deliver_returns:
  assumes "h r (meta task) (world s) = (None, w)"
  shows "deliver tc key h r task s =
           (None, tasks_remove (task_id task) (s\<lparr>world := w, invoked := invoked s @ [(key, r)]\<rparr>))"
  using assms by (simp add: deliver_def invoke_def)

lemma deliver_throws_then_returns:
  assumes "h r (meta task) (world s) = (Some e, w1)"
    and "h (error_result tc task e) (meta task) w1 = (None, w2)"
  shows "deliver tc key h r task s =
           (None, tasks_remove (task_id task)
              (s\<lparr>world := w2,
                 invoked := invoked s @ [(key, r), (key, error_result tc task e)]\<rparr>))"
  using assms by (simp add: deliver_def invoke_def)

lemma deliver_throws_twice:
  assumes "h r (meta task) (world s) = (Some e, w1)"
    and "h (error_result tc task e) (meta task) w1 = (Some e2, w2)"
  shows "deliver tc key h r task s =
           (Some e2, s\<lparr>world := w2,
                 invoked := invoked s @ [(key, r), (key, error_result tc task e)]\<rparr>)"
  using assms by (simp add: deliver_def invoke_def)

lemma deliver_first_call:
  "take (Suc (length (invoked s))) (invoked (snd (deliver tc key h r task s))) =
     invoked s @ [(key, r)]"
  by (simp add: deliver_def invoke_def split: prod.splits option.splits)

text \<open>
  Claim C1, as stated, fails: with a handler under the type and another under type and
  id, the result of task 9 goes to the handler under the type.
\<close>

theorem handleResult_type_id_handler_shadowed:
  "handler two_handlers ''ADD_ACCOUNT'' \<noteq> None \<and>
   handler two_handlers ''ADD_ACCOUNT-9'' \<noteq> None \<and>
   task_type add_account_task @ ''-'' @ show_id (task_id add_account_task) = ''ADD_ACCOUNT-9'' \<and>
   map fst (invoked (snd (handleResult tc_key (Some balances_result) add_account_task two_handlers)))
     = [''ADD_ACCOUNT''] \<and>
   world (snd (handleResult tc_key (Some balances_result) add_account_task two_handlers))
     = [''by type'']"
  by (simp add: two_handlers_def registerHandler_def handler_identifier_def tasks_add_def
      empty_system_def add_account_task_def handleResult_def find_handler_def deliver_def
      invoke_def marking_handler_def show_id_def show_nat_digit digit_def)

text \<open>
  Claim C1, amended: for a task whose result is not ignored, the lookup prefers the
  handler registered under the task's type and falls back to the one registered under
  type and id; the handler found is the one called with the result.
\<close>

theorem handleResult_prefers_type_handler:
  assumes "\<not> ignoreResult (meta task)"
  shows "(handler s (task_type task) = Some h \<longrightarrow>
            handleResult tc (Some r) task s = deliver tc (task_type task) h r task s \<and>
            take (Suc (length (invoked s))) (invoked (snd (handleResult tc (Some r) task s))) =
              invoked s @ [(task_type task, r)]) \<and>
         (handler s (task_type task) = None \<and>
          handler s (task_type task @ ''-'' @ show_id (task_id task)) = Some h' \<longrightarrow>
            handleResult tc (Some r) task s =
              deliver tc (task_type task @ ''-'' @ show_id (task_id task)) h' r task s \<and>
            take (Suc (length (invoked s))) (invoked (snd (handleResult tc (Some r) task s))) =
              invoked s @ [(task_type task @ ''-'' @ show_id (task_id task), r)])"
  using assms
  by (simp add: handleResult_def find_handler_type find_handler_type_id deliver_first_call)

theorem handleResult_prefers_type_handler_witness:
  "\<not> ignoreResult (meta add_account_task) \<and>
   handler two_handlers (task_type add_account_task) = Some (marking_handler ''by type'') \<and>
   handleResult tc_key (Some balances_result) add_account_task two_handlers =
     deliver tc_key ''ADD_ACCOUNT'' (marking_handler ''by type'') balances_result
       add_account_task two_handlers \<and>
   handler only_type_id_handler (task_type add_account_task) = None \<and>
   handleResult tc_key (Some balances_result) add_account_task only_type_id_handler =
     deliver tc_key ''ADD_ACCOUNT-9'' (marking_handler ''by type and id'') balances_result
       add_account_task only_type_id_handler \<and>
   world (snd (handleResult tc_key (Some balances_result) add_account_task only_type_id_handler))
     = [''by type and id'']"
  using handleResult_prefers_type_handler
    [of add_account_task two_handlers "marking_handler ''by type''" tc_key balances_result
        "marking_handler ''by type and id''"]
    handleResult_prefers_type_handler
    [of add_account_task only_type_id_handler "marking_handler ''by type''" tc_key
        balances_result "marking_handler ''by type and id''"]
  by (simp add: two_handlers_def only_type_id_handler_def registerHandler_def
      handler_identifier_def tasks_add_def
      empty_system_def add_account_task_def deliver_def
      invoke_def marking_handler_def show_id_def show_nat_digit digit_def)

lemma tasks_remove_removes: "task \<notin> set (tasks (tasks_remove (task_id task) s))"
  by simp

lemma tasks_remove_twice:
  "tasks_remove tid (tasks_remove tid (tasks_unlock tid s)) = tasks_remove tid s"
  by (simp add: tasks_remove_def tasks_unlock_def)

lemma handleResult_ignored:
  "ignoreResult (meta task) \<Longrightarrow>
   handleResult tc res task s = (None, tasks_remove (task_id task) s)"
  by (simp add: handleResult_def)

lemma handleResult_no_handler:
  "\<not> ignoreResult (meta task) \<Longrightarrow> find_handler s task = None \<Longrightarrow>
   handleResult tc (Some r) task s =
     (None, tasks_remove (task_id task)
        (s\<lparr>notifications := notifications s @ [no_handler_notification task]\<rparr>))"
  by (simp add: handleResult_def notify_def no_handler_notification_def)

lemma handleResult_found:
  "\<not> ignoreResult (meta task) \<Longrightarrow> find_handler s task = Some (key, h) \<Longrightarrow>
   handleResult tc (Some r) task s = deliver tc key h r task s"
  by (simp add: handleResult_def)

text \<open>
  Claim C5, as stated, fails: a handler that throws on the result and on the synthetic
  failure result as well makes \<^verbatim>\<open>handleResult\<close> throw, and the task stays in the
  registry.
\<close>

theorem handleResult_second_throw_escapes:
  "fst (handleResult tc_key (Some balances_result) add_account_task throwing_system)
     = Some (Error ''boom'') \<and>
   add_account_task \<in>
     set (tasks (snd (handleResult tc_key (Some balances_result) add_account_task throwing_system))) \<and>
   map fst
     (invoked (snd (handleResult tc_key (Some balances_result) add_account_task throwing_system)))
     = [''ADD_ACCOUNT'', ''ADD_ACCOUNT'']"
  by (simp add: throwing_system_def registerHandler_def handler_identifier_def tasks_add_def
      empty_system_def add_account_task_def handleResult_def find_handler_def deliver_def
      invoke_def throwing_handler_def)

text \<open>
  Claim C5, amended: if the handler throws on the result, the same handler is called a
  second time with a synthetic failure result whose message is the error template
  rendered with the thrown error's message; when this second call returns, nothing is
  thrown out of \<^verbatim>\<open>handleResult\<close> and the task is removed.
\<close>

theorem handleResult_rethrows_to_same_handler:
  assumes "\<not> ignoreResult (meta task)"
    and "find_handler s task = Some (key, h)"
    and "h r (meta task) (world s) = (Some e, w1)"
    and "h (error_result tc task e) (meta task) w1 = (None, w2)"
  shows "handleResult tc (Some r) task s =
           (None, tasks_remove (task_id task)
              (s\<lparr>world := w2,
                 invoked := invoked s @ [(key, r), (key, error_result tc task e)]\<rparr>)) \<and>
         result (error_result tc task e) = JObj [] \<and>
         message (error_result tc task e) =
           tc ''task_manager.error'' 0
             [(''taskId'', json_of_id (task_id task)),
              (''title'', JStr (title (meta task))),
              (''error'', JStr (exn_message e))] \<and>
         task \<notin> set (tasks (snd (handleResult tc (Some r) task s)))"
proof -
  have eq: "handleResult tc (Some r) task s =
           (None, tasks_remove (task_id task)
              (s\<lparr>world := w2,
                 invoked := invoked s @ [(key, r), (key, error_result tc task e)]\<rparr>))"
    using assms by (simp add: handleResult_found deliver_throws_then_returns)
  moreover have "task \<notin> set (tasks (snd (handleResult tc (Some r) task s)))"
    unfolding eq by simp
  ultimately show ?thesis
    by (simp add: error_result_def)
qed

theorem handleResult_rethrows_to_same_handler_witness:
  "\<not> ignoreResult (meta add_account_task) \<and>
   find_handler reporting_system add_account_task = Some (''ADD_ACCOUNT'', reporting_handler) \<and>
   fst (handleResult tc_key (Some balances_result) add_account_task reporting_system) = None \<and>
   invoked (snd (handleResult tc_key (Some balances_result) add_account_task reporting_system)) =
     [(''ADD_ACCOUNT'', balances_result),
      (''ADD_ACCOUNT'', \<lparr>result = JObj [], message = ''task_manager.error''\<rparr>)] \<and>
   world (snd (handleResult tc_key (Some balances_result) add_account_task reporting_system)) =
     [''task_manager.error''] \<and>
   tasks (snd (handleResult tc_key (Some balances_result) add_account_task reporting_system)) = []"
  using handleResult_rethrows_to_same_handler
    [of add_account_task reporting_system "''ADD_ACCOUNT''" reporting_handler balances_result
        "Error ''unexpected payload''" "[]" tc_key "[''task_manager.error'']"]
  by (simp add: reporting_system_def registerHandler_def handler_identifier_def tasks_add_def
      empty_system_def add_account_task_def find_handler_def reporting_handler_def
      balances_result_def error_result_def tc_key_def)

text \<open>
  Claim C7, as stated, fails. After a handler for the type has been registered and
  unregistered, a result for a task of that type with \<^verbatim>\<open>ignoreResult\<close> set removes the
  task with no notification, and a result for a task that has a handler of its own id
  is handed to that handler, again with no notification.
\<close>

theorem register_then_unregister_no_notification:
  "task_type query_balances_task = ''QUERY_BALANCES'' \<and>
   handler unregistered_ignored_system ''QUERY_BALANCES'' = None \<and>
   handleResult tc_key (Some balances_result) query_balances_task unregistered_ignored_system =
     (None, unregistered_ignored_system\<lparr>tasks := []\<rparr>) \<and>
   notifications (snd (handleResult tc_key (Some balances_result) query_balances_task
                         unregistered_ignored_system)) = [] \<and>
   task_type add_account_task = ''ADD_ACCOUNT'' \<and>
   handler unregistered_type_system ''ADD_ACCOUNT'' = None \<and>
   fst (handleResult tc_key (Some balances_result) add_account_task unregistered_type_system)
     = None \<and>
   invoked (snd (handleResult tc_key (Some balances_result) add_account_task
                   unregistered_type_system)) = [(''ADD_ACCOUNT-9'', balances_result)] \<and>
   world (snd (handleResult tc_key (Some balances_result) add_account_task
                 unregistered_type_system)) = [''by type and id''] \<and>
   notifications (snd (handleResult tc_key (Some balances_result) add_account_task
                         unregistered_type_system)) = []"
  by (simp add: unregistered_ignored_system_def unregistered_type_system_def
      only_type_id_handler_def unregisterHandler_def registerHandler_def
      handler_identifier_def tasks_add_def tasks_remove_def tasks_unlock_def empty_system_def
      query_balances_task_def add_account_task_def handleResult_def find_handler_def
      deliver_def invoke_def marking_handler_def show_id_def show_nat_digit digit_def)

text \<open>
  Claim C7, amended. Registering a handler and unregistering it leaves no handler under
  its key, and the table as it was when the key had no handler before. A result for a
  task of that type, which has no handler of its own id and whose result is not
  ignored, then emits the notification "No handler found", and the task is removed
  with no handler called.
\<close>

theorem register_then_unregister_no_handler:
  assumes "\<not> ignoreResult (meta task)"
    and "handler s (task_type task @ ''-'' @ show_id (task_id task)) = None"
  shows "unregisterHandler ty tid (registerHandler ty h tid s) = unregisterHandler ty tid s \<and>
         (handler s (handler_identifier ty tid) = None \<longrightarrow>
            unregisterHandler ty tid (registerHandler ty h tid s) = s) \<and>
         handler (unregisterHandler (task_type task) None
                    (registerHandler (task_type task) h None s)) (task_type task) = None \<and>
         handleResult tc (Some r) task
             (unregisterHandler (task_type task) None (registerHandler (task_type task) h None s)) =
           (None, tasks_remove (task_id task)
              (notify
                 (''No handler found for task '' @ [CHR 0x27] @ task_type task @ [CHR 0x27]
                    @ '' with id '' @ show_id (task_id task))
                 ''Tasks'' INFO False
                 (unregisterHandler (task_type task) None
                    (registerHandler (task_type task) h None s)))) \<and>
         invoked (snd (handleResult tc (Some r) task
             (unregisterHandler (task_type task) None (registerHandler (task_type task) h None s))))
           = invoked s \<and>
         world (snd (handleResult tc (Some r) task
             (unregisterHandler (task_type task) None (registerHandler (task_type task) h None s))))
           = world s \<and>
         notifications (snd (handleResult tc (Some r) task
             (unregisterHandler (task_type task) None (registerHandler (task_type task) h None s))))
           = notifications s @ [no_handler_notification task] \<and>
         task \<notin> set (tasks (snd (handleResult tc (Some r) task
             (unregisterHandler (task_type task) None (registerHandler (task_type task) h None s)))))"
proof -
  let ?s = "unregisterHandler (task_type task) None (registerHandler (task_type task) h None s)"
  have undo: "unregisterHandler ty tid (registerHandler ty h tid s) = unregisterHandler ty tid s"
    by (simp add: unregisterHandler_def registerHandler_def)
  have restored: "handler s (handler_identifier ty tid) = None \<longrightarrow>
      unregisterHandler ty tid (registerHandler ty h tid s) = s"
  proof
    assume "handler s (handler_identifier ty tid) = None"
    then have "(handler s)(handler_identifier ty tid := None) = handler s"
      by (rule fun_upd_idem)
    then show "unregisterHandler ty tid (registerHandler ty h tid s) = s"
      by (simp add: unregisterHandler_def registerHandler_def)
  qed
  have fields: "tasks ?s = tasks s" "invoked ?s = invoked s" "world ?s = world s"
    "notifications ?s = notifications s"
    by (simp_all add: unregisterHandler_def registerHandler_def)
  have by_type: "handler ?s (task_type task) = None"
    by (simp add: unregisterHandler_def registerHandler_def handler_identifier_def)
  have "handler ?s (task_type task @ ''-'' @ show_id (task_id task)) = None"
    using assms(2)
    by (simp add: unregisterHandler_def registerHandler_def handler_identifier_def)
  with by_type have none: "find_handler ?s task = None"
    by (rule find_handler_none)
  have run: "handleResult tc (Some r) task ?s =
      (None, tasks_remove (task_id task)
        (notify
           (''No handler found for task '' @ [CHR 0x27] @ task_type task @ [CHR 0x27]
              @ '' with id '' @ show_id (task_id task))
           ''Tasks'' INFO False ?s))"
    using assms(1) none by (simp add: handleResult_def)
  show ?thesis
    unfolding run using undo restored by_type fields
    by (simp add: no_handler_notification_def)
qed

theorem register_then_unregister_no_handler_witness:
  "\<not> ignoreResult (meta add_account_task) \<and>
   handler one_task_system ''ADD_ACCOUNT-9'' = None \<and>
   handler (registerHandler ''ADD_ACCOUNT'' (marking_handler ''done'') None one_task_system)
     ''ADD_ACCOUNT'' \<noteq> None \<and>
   invoked (snd (handleResult tc_key (Some balances_result) add_account_task
      (unregisterHandler ''ADD_ACCOUNT'' None
         (registerHandler ''ADD_ACCOUNT'' (marking_handler ''done'') None one_task_system)))) = [] \<and>
   notifications (snd (handleResult tc_key (Some balances_result) add_account_task
      (unregisterHandler ''ADD_ACCOUNT'' None
         (registerHandler ''ADD_ACCOUNT'' (marking_handler ''done'') None one_task_system)))) =
     [\<lparr>n_message = ''No handler found for task '' @ [CHR 0x27] @ ''ADD_ACCOUNT'' @ [CHR 0x27]
         @ '' with id 9'',
       n_title = ''Tasks'', n_severity = INFO, n_display = False\<rparr>] \<and>
   tasks (snd (handleResult tc_key (Some balances_result) add_account_task
      (unregisterHandler ''ADD_ACCOUNT'' None
         (registerHandler ''ADD_ACCOUNT'' (marking_handler ''done'') None one_task_system)))) = []"
  using register_then_unregister_no_handler
    [of add_account_task one_task_system "''ADD_ACCOUNT''" None "marking_handler ''done''"
        tc_key balances_result]
  by (simp add: one_task_system_def registerHandler_def unregisterHandler_def
      handler_identifier_def tasks_add_def empty_system_def add_account_task_def
      no_handler_notification_def show_id_def show_nat_digit digit_def)

text \<open>
  Claim C9. For a task whose metadata sets \<^verbatim>\<open>ignoreResult\<close>, a result handed to
  \<^verbatim>\<open>handleResult\<close>, by the \<^verbatim>\<open>then\<close> callback of a poll or by its \<^verbatim>\<open>catch\<close> callback
  on a not-found error, removes the task; no handler is called and no notification is
  emitted.
\<close>

theorem ignoreResult_discards_result:
  assumes "ignoreResult (meta task)"
  shows "handleResult tc res task s = (None, tasks_remove (task_id task) s) \<and>
         poll_settled tc (Inr res) task s = (None, tasks_remove (task_id task) s) \<and>
         poll_settled tc (Inl (TaskNotFoundError m)) task s =
           (None, tasks_remove (task_id task) s) \<and>
         task \<notin> set (tasks (tasks_remove (task_id task) s)) \<and>
         invoked (tasks_remove (task_id task) s) = invoked s \<and>
         notifications (tasks_remove (task_id task) s) = notifications s \<and>
         world (tasks_remove (task_id task) s) = world s"
  using assms
  by (simp add: poll_settled_def poll_rejected_def handleResult_ignored tasks_remove_twice)

theorem ignoreResult_discards_result_witness:
  "ignoreResult (meta query_balances_task) \<and>
   handler ignored_task_system ''QUERY_BALANCES'' \<noteq> None \<and>
   tasks ignored_task_system = [query_balances_task] \<and>
   poll_settled tc_key (Inr (Some balances_result)) query_balances_task ignored_task_system =
     (None, ignored_task_system\<lparr>tasks := [], locked := []\<rparr>) \<and>
   poll_settled tc_key (Inl (TaskNotFoundError ''Task with id 7 not found''))
       query_balances_task ignored_task_system =
     (None, ignored_task_system\<lparr>tasks := [], locked := []\<rparr>) \<and>
   invoked (ignored_task_system\<lparr>tasks := [], locked := []\<rparr>) = [] \<and>
   notifications (ignored_task_system\<lparr>tasks := [], locked := []\<rparr>) = []"
  using ignoreResult_discards_result
    [of query_balances_task tc_key "Some balances_result" ignored_task_system
        "''Task with id 7 not found''"]
  by (simp add: ignored_task_system_def registerHandler_def handler_identifier_def
      tasks_add_def tasks_lock_def tasks_remove_def tasks_unlock_def empty_system_def
      query_balances_task_def)

lemma handleResult_tasks_removed:
  assumes "\<forall>u \<in> set (tasks s). task_id u \<noteq> task_id task"
  shows "tasks (snd (handleResult tc res task s)) = tasks s"
  using assms
  by (auto simp: handleResult_def deliver_def invoke_def filter_id_conv
      split: option.splits prod.splits)

lemma handleResult_locked_removed:
  assumes "\<forall>j \<in> set (locked s). Some j \<noteq> task_id task"
  shows "locked (snd (handleResult tc res task s)) = locked s"
  using assms
  by (auto simp: handleResult_def deliver_def invoke_def filter_id_conv
      split: option.splits prod.splits)

lemma deliver_throws_invoked:
  assumes "h r (meta task) (world s) = (Some e, w1)"
  shows "invoked (snd (deliver tc key h r task s)) =
           invoked s @ [(key, r), (key, error_result tc task e)]"
proof (cases "h (error_result tc task e) (meta task) w1")
  case (Pair thrown w2)
  show ?thesis
  proof (cases thrown)
    case None
    with assms Pair show ?thesis by (simp add: deliver_throws_then_returns)
  next
    case (Some e2)
    with assms Pair show ?thesis by (simp add: deliver_throws_twice)
  qed
qed

lemma not_found_settled:
  "poll_settled tc (Inl (TaskNotFoundError m)) task s =
     handleResult tc (Some (not_found_result tc task)) task
       (tasks_remove (task_id task) (tasks_unlock (task_id task) s))"
  by (simp add: poll_settled_def poll_rejected_def)

text \<open>
  Claim C2, as stated, fails: the handler of a task is not always called exactly once on
  a not-found error. For a task with \<^verbatim>\<open>ignoreResult\<close>, as \<^verbatim>\<open>fetchBalances\<close> creates it,
  the registered handler is not called at all; a handler that throws is called twice.
\<close>

theorem not_found_handler_not_called_once:
  "query_balances_task \<in> set (tasks ignored_task_system) \<and>
   find_handler ignored_task_system query_balances_task \<noteq> None \<and>
   invoked (snd (poll_settled tc_key (Inl (TaskNotFoundError ''Task with id 7 not found''))
                   query_balances_task ignored_task_system)) = [] \<and>
   add_account_task \<in> set (tasks throwing_system) \<and>
   map fst (invoked (snd (poll_settled tc_key (Inl (TaskNotFoundError ''Task with id 9 not found''))
                   add_account_task throwing_system))) = [''ADD_ACCOUNT'', ''ADD_ACCOUNT'']"
  by (simp add: ignored_task_system_def throwing_system_def registerHandler_def
      handler_identifier_def tasks_add_def tasks_lock_def tasks_remove_def tasks_unlock_def
      empty_system_def query_balances_task_def add_account_task_def find_handler_def
      poll_settled_def poll_rejected_def handleResult_def deliver_def invoke_def
      throwing_handler_def)

text \<open>
  Claim C2, amended. When the poll of a task rejects with a not-found error, the task is
  unlocked and removed from the registry. With \<^verbatim>\<open>ignoreResult\<close> set no handler is
  called. With no handler registered none is called and the notification "No handler
  found" is emitted. Otherwise the handler is called with the synthetic result, whose
  message is the not-found template rendered with the task's id and title: exactly
  once when that call returns, and once more, with the synthetic failure result, when it
  throws.
\<close>

theorem not_found_removes_and_reports:
  "task \<notin> set (tasks (snd (poll_settled tc (Inl (TaskNotFoundError m)) task s))) \<and>
   (\<forall>j \<in> set (locked (snd (poll_settled tc (Inl (TaskNotFoundError m)) task s))).
      Some j \<noteq> task_id task) \<and>
   (ignoreResult (meta task) \<longrightarrow>
      invoked (snd (poll_settled tc (Inl (TaskNotFoundError m)) task s)) = invoked s \<and>
      notifications (snd (poll_settled tc (Inl (TaskNotFoundError m)) task s)) = notifications s) \<and>
   (\<not> ignoreResult (meta task) \<and> find_handler s task = None \<longrightarrow>
      invoked (snd (poll_settled tc (Inl (TaskNotFoundError m)) task s)) = invoked s \<and>
      notifications (snd (poll_settled tc (Inl (TaskNotFoundError m)) task s)) =
        notifications s @ [no_handler_notification task]) \<and>
   (\<not> ignoreResult (meta task) \<and> find_handler s task = Some (key, h) \<and>
    h (not_found_result tc task) (meta task) (world s) = (None, w) \<longrightarrow>
      fst (poll_settled tc (Inl (TaskNotFoundError m)) task s) = None \<and>
      invoked (snd (poll_settled tc (Inl (TaskNotFoundError m)) task s)) =
        invoked s @ [(key, not_found_result tc task)] \<and>
      notifications (snd (poll_settled tc (Inl (TaskNotFoundError m)) task s)) = notifications s \<and>
      world (snd (poll_settled tc (Inl (TaskNotFoundError m)) task s)) = w) \<and>
   (\<not> ignoreResult (meta task) \<and> find_handler s task = Some (key, h) \<and>
    h (not_found_result tc task) (meta task) (world s) = (Some e, w) \<longrightarrow>
      invoked (snd (poll_settled tc (Inl (TaskNotFoundError m)) task s)) =
        invoked s @ [(key, not_found_result tc task), (key, error_result tc task e)]) \<and>
   result (not_found_result tc task) = JObj [] \<and>
   message (not_found_result tc task) =
     tc ''task_manager.not_found'' 0
       [(''taskId'', json_of_id (task_id task)), (''title'', JStr (title (meta task)))]"
proof -
  let ?s1 = "tasks_remove (task_id task) (tasks_unlock (task_id task) s)"
  let ?nf = "not_found_result tc task"
  let ?out = "poll_settled tc (Inl (TaskNotFoundError m)) task s"
  have out: "?out = handleResult tc (Some ?nf) task ?s1"
    by (rule not_found_settled)
  have s1: "world ?s1 = world s" "invoked ?s1 = invoked s" "notifications ?s1 = notifications s"
    by simp_all
  have find: "find_handler ?s1 task = find_handler s task"
    by (rule find_handler_cong) simp
  have "tasks (snd ?out) = tasks ?s1"
    unfolding out by (rule handleResult_tasks_removed) simp
  then have removed: "task \<notin> set (tasks (snd ?out))"
    by simp
  have "locked (snd ?out) = locked ?s1"
    unfolding out by (rule handleResult_locked_removed) simp
  then have unlocked: "\<forall>j \<in> set (locked (snd ?out)). Some j \<noteq> task_id task"
    by simp
  have ignored: "ignoreResult (meta task) \<longrightarrow>
      invoked (snd ?out) = invoked s \<and> notifications (snd ?out) = notifications s"
    unfolding out by (simp add: handleResult_ignored)
  have nohandler: "\<not> ignoreResult (meta task) \<and> find_handler s task = None \<longrightarrow>
      invoked (snd ?out) = invoked s \<and>
      notifications (snd ?out) = notifications s @ [no_handler_notification task]"
    unfolding out using find by (simp add: handleResult_no_handler)
  have once: "\<not> ignoreResult (meta task) \<and> find_handler s task = Some (key, h) \<and>
    h ?nf (meta task) (world s) = (None, w) \<longrightarrow>
      fst ?out = None \<and> invoked (snd ?out) = invoked s @ [(key, ?nf)] \<and>
      notifications (snd ?out) = notifications s \<and> world (snd ?out) = w"
    unfolding out using find s1 by (simp add: handleResult_found deliver_returns)
  have twice: "\<not> ignoreResult (meta task) \<and> find_handler s task = Some (key, h) \<and>
    h ?nf (meta task) (world s) = (Some e, w) \<longrightarrow>
      invoked (snd ?out) = invoked s @ [(key, ?nf), (key, error_result tc task e)]"
    unfolding out using find s1 by (simp add: handleResult_found deliver_throws_invoked)
  from removed unlocked ignored nohandler once twice show ?thesis
    by (simp add: not_found_result_def)
qed

theorem not_found_removes_and_reports_witness:
  "add_account_task \<in> set (tasks marking_system) \<and>
   locked marking_system = [9] \<and>
   \<not> ignoreResult (meta add_account_task) \<and>
   find_handler marking_system add_account_task =
     Some (''ADD_ACCOUNT'', marking_handler ''done'') \<and>
   tasks (snd (poll_settled tc_key (Inl (TaskNotFoundError ''Task with id 9 not found''))
                 add_account_task marking_system)) = [] \<and>
   locked (snd (poll_settled tc_key (Inl (TaskNotFoundError ''Task with id 9 not found''))
                 add_account_task marking_system)) = [] \<and>
   invoked (snd (poll_settled tc_key (Inl (TaskNotFoundError ''Task with id 9 not found''))
                 add_account_task marking_system)) =
     [(''ADD_ACCOUNT'', \<lparr>result = JObj [], message = ''task_manager.not_found''\<rparr>)] \<and>
   notifications (snd (poll_settled tc_key (Inl (TaskNotFoundError ''Task with id 9 not found''))
                 add_account_task marking_system)) = [] \<and>
   world (snd (poll_settled tc_key (Inl (TaskNotFoundError ''Task with id 9 not found''))
                 add_account_task marking_system)) = [''done'']"
  using not_found_removes_and_reports
    [of add_account_task tc_key "''Task with id 9 not found''" marking_system
        "''ADD_ACCOUNT''" "marking_handler ''done''" "[''done'']"]
  by (simp add: marking_system_def registerHandler_def handler_identifier_def tasks_add_def
      tasks_lock_def tasks_remove_def tasks_unlock_def empty_system_def add_account_task_def
      find_handler_def marking_handler_def not_found_result_def tc_key_def
      poll_settled_def poll_rejected_def handleResult_def deliver_def invoke_def)

subsection \<open>monitor\<close>

lemma indexOf_member: "(indexOf xs x > - 1) = (x \<in> set xs)"
  using indexOf_absent [of x xs] indexOf_present [of x xs] by fastforce

lemma monitor_loop_ids:
  "map poll_id (fst (monitor_loop lockedv ts s)) = fresh_ids lockedv ts"
  by (induction ts arbitrary: s)
    (simp_all add: indexOf_member split_beta split: option.splits)

lemma monitor_loop_polls:
  "p \<in> set (fst (monitor_loop lockedv ts s)) \<Longrightarrow>
   poll_task p \<in> set ts \<and> task_id (poll_task p) = Some (poll_id p) \<and>
   poll_numericKeys p = numericKeys (meta (poll_task p))"
proof (induction ts arbitrary: s)
  case Nil
  then show ?case by simp
next
  case (Cons t ts)
  show ?case
  proof (cases "task_id t")
    case None
    with Cons show ?thesis by auto
  next
    case (Some i)
    show ?thesis
    proof (cases "indexOf lockedv i > - 1")
      case True
      with Some Cons show ?thesis by auto
    next
      case False
      obtain polls s' where run: "monitor_loop lockedv ts (tasks_lock i s) = (polls, s')"
        by (cases "monitor_loop lockedv ts (tasks_lock i s)")
      with Some False Cons.prems
      have "p = \<lparr>poll_id = i, poll_numericKeys = numericKeys (meta t), poll_task = t\<rparr>
            \<or> p \<in> set (fst (monitor_loop lockedv ts (tasks_lock i s)))"
        by auto
      then show ?thesis
        using Some Cons.IH [of "tasks_lock i s"] by auto
    qed
  qed
qed

lemma monitor_loop_locked:
  "locked (snd (monitor_loop lockedv ts s)) = locked s @ fresh_ids lockedv ts"
  by (induction ts arbitrary: s)
    (simp_all add: indexOf_member split_beta split: option.splits)

lemma monitor_loop_notifications:
  "notifications (snd (monitor_loop lockedv ts s)) =
     notifications s @ map null_id_notification (filter (\<lambda>t. task_id t = None) ts)"
  by (induction ts arbitrary: s)
    (simp_all add: null_id_notification_def split_beta split: option.splits)

lemma monitor_loop_unchanged:
  "tasks (snd (monitor_loop lockedv ts s)) = tasks s \<and>
   handler (snd (monitor_loop lockedv ts s)) = handler s \<and>
   invoked (snd (monitor_loop lockedv ts s)) = invoked s \<and>
   world (snd (monitor_loop lockedv ts s)) = world s"
  by (induction ts arbitrary: s) (simp_all add: split_beta split: option.splits)

lemma fresh_ids_not_locked: "set (fresh_ids lockedv ts) \<inter> set lockedv = {}"
  by (induction ts) (auto split: option.splits)

lemma fresh_ids_subset: "set (fresh_ids lockedv ts) \<subseteq> set (List.map_filter task_id ts)"
  by (induction ts) (auto simp: List.map_filter_simps split: option.splits)

lemma fresh_ids_distinct:
  "distinct (List.map_filter task_id ts) \<Longrightarrow> distinct (fresh_ids lockedv ts)"
proof (induction ts)
  case Nil
  then show ?case by simp
next
  case (Cons t ts)
  then show ?case
    using fresh_ids_subset [of lockedv ts]
    by (auto simp: List.map_filter_simps split: option.splits)
qed

lemma distinct_count_list_le: "distinct xs \<Longrightarrow> count_list xs x \<le> 1"
  by (induction xs) (auto simp: count_list_0_iff)

text \<open>
  Claim C3. In a registry whose ids are distinct, two calls of \<^verbatim>\<open>monitor\<close> in
  succession, with no poll settled in between, send at most one request for any id: the
  first call locks every id it polls, and the second polls no locked id.
\<close>

theorem monitor_twice_polls_once:
  assumes "distinct (List.map_filter task_id (tasks s))"
    and "monitor s = (polls1, s1)"
    and "monitor s1 = (polls2, s2)"
  shows "count_list (map poll_id (polls1 @ polls2)) i \<le> 1 \<and>
         set (map poll_id polls1) \<subseteq> set (locked s1) \<and>
         set (map poll_id polls2) \<inter> set (locked s1) = {} \<and>
         set (map poll_id polls1) \<inter> set (map poll_id polls2) = {}"
proof -
  have ids1: "map poll_id polls1 = fresh_ids (locked s) (tasks s)"
    using assms(2) monitor_loop_ids [of "locked s" "tasks s" s] by (simp add: monitor_def)
  have s1: "locked s1 = locked s @ fresh_ids (locked s) (tasks s)" "tasks s1 = tasks s"
    using assms(2) monitor_loop_locked [of "locked s" "tasks s" s]
      monitor_loop_unchanged [of "locked s" "tasks s" s]
    by (simp_all add: monitor_def)
  have ids2: "map poll_id polls2 = fresh_ids (locked s1) (tasks s)"
    using assms(3) monitor_loop_ids [of "locked s1" "tasks s1" s1] s1(2)
    by (simp add: monitor_def)
  have locked1: "set (map poll_id polls1) \<subseteq> set (locked s1)"
    using ids1 s1(1) by simp
  have fresh2: "set (map poll_id polls2) \<inter> set (locked s1) = {}"
    unfolding ids2 by (rule fresh_ids_not_locked)
  from locked1 fresh2 have apart: "set (map poll_id polls1) \<inter> set (map poll_id polls2) = {}"
    by blast
  have "distinct (map poll_id polls1)" "distinct (map poll_id polls2)"
    unfolding ids1 ids2 using assms(1) by (simp_all add: fresh_ids_distinct)
  with apart have "distinct (map poll_id (polls1 @ polls2))"
    by simp
  then have "count_list (map poll_id (polls1 @ polls2)) i \<le> 1"
    by (rule distinct_count_list_le)
  with locked1 fresh2 apart show ?thesis
    by simp
qed

theorem monitor_twice_polls_once_witness:
  "distinct (List.map_filter task_id (tasks two_task_system)) \<and>
   map poll_id (fst (monitor two_task_system)) = [9, 7] \<and>
   locked (snd (monitor two_task_system)) = [9, 7] \<and>
   fst (monitor (snd (monitor two_task_system))) = [] \<and>
   count_list (map poll_id (fst (monitor two_task_system)
                 @ fst (monitor (snd (monitor two_task_system))))) 9 \<le> 1"
  using monitor_twice_polls_once
    [of two_task_system "fst (monitor two_task_system)" "snd (monitor two_task_system)"
        "fst (monitor (snd (monitor two_task_system)))"
        "snd (monitor (snd (monitor two_task_system)))" 9]
  by (simp add: two_task_system_def tasks_add_def empty_system_def add_account_task_def
      query_balances_task_def monitor_def List.map_filter_simps tasks_lock_def)

text \<open>
  Claim C4, as stated, fails: the notification for a task with a null id is emitted by
  every call of \<^verbatim>\<open>monitor\<close>, not once.
\<close>

theorem monitor_null_id_notified_twice:
  "tasks null_task_system = [null_id_task] \<and>
   notifications (snd (monitor null_task_system)) = [null_id_notification null_id_task] \<and>
   notifications (snd (monitor (snd (monitor null_task_system)))) =
     [null_id_notification null_id_task, null_id_notification null_id_task]"
  by (simp add: null_task_system_def tasks_add_def empty_system_def null_id_task_def
      monitor_def notify_def null_id_notification_def)

text \<open>
  Claim C4, amended. A task whose id is null or missing is never polled by \<^verbatim>\<open>monitor\<close>
  and never removed by it; every call of \<^verbatim>\<open>monitor\<close> that meets the task emits the
  diagnostic notification for it again.
\<close>

theorem monitor_null_id_notified_every_call:
  assumes "monitor s = (polls, s')"
  shows "tasks s' = tasks s \<and>
         (\<forall>p \<in> set polls. task_id (poll_task p) \<noteq> None) \<and>
         notifications s' =
           notifications s @ map null_id_notification (filter (\<lambda>t. task_id t = None) (tasks s)) \<and>
         (task \<in> set (tasks s) \<and> task_id task = None \<longrightarrow>
            task \<in> set (tasks s') \<and> task \<notin> poll_task ` set polls \<and>
            null_id_notification task \<in>
              set (drop (length (notifications s)) (notifications s')))"
proof -
  have run: "monitor_loop (locked s) (tasks s) s = (polls, s')"
    using assms by (simp add: monitor_def)
  have kept: "tasks s' = tasks s"
    using monitor_loop_unchanged [of "locked s" "tasks s" s] run by simp
  have polled: "\<forall>p \<in> set polls. task_id (poll_task p) \<noteq> None"
    using monitor_loop_polls [of _ "locked s" "tasks s" s] run by auto
  have emitted: "notifications s' =
      notifications s @ map null_id_notification (filter (\<lambda>t. task_id t = None) (tasks s))"
    using monitor_loop_notifications [of "locked s" "tasks s" s] run by simp
  from kept polled emitted show ?thesis
    by auto
qed

theorem monitor_null_id_notified_every_call_witness:
  "null_id_task \<in> set (tasks null_task_system) \<and> task_id null_id_task = None \<and>
   fst (monitor null_task_system) = [] \<and>
   tasks (snd (monitor null_task_system)) = [null_id_task] \<and>
   notifications (snd (monitor null_task_system)) = [null_id_notification null_id_task] \<and>
   null_id_notification null_id_task \<in>
     set (drop (length (notifications null_task_system))
            (notifications (snd (monitor null_task_system))))"
  using monitor_null_id_notified_every_call
    [of null_task_system "fst (monitor null_task_system)" "snd (monitor null_task_system)"
        null_id_task]
  by (simp add: null_task_system_def tasks_add_def empty_system_def null_id_task_def
      monitor_def notify_def null_id_notification_def)

section \<open>Properties of queryTaskResult\<close>

lemma queryTaskResult_no_response:
  "queryTaskResult api taskId keys (NetworkError m) = Inl (Error m)"
  by (simp add: queryTaskResult_def axios_get_def)

lemma queryTaskResult_404:
  "validTaskStatus api 404 \<Longrightarrow> status raw = 404 \<Longrightarrow>
   queryTaskResult api taskId keys (Response raw) =
     Inl (TaskNotFoundError (''Task with id '' @ show_nat taskId @ '' not found''))"
  by (simp add: queryTaskResult_def axios_get_def)

lemma queryTaskResult_not_404:
  "status raw \<noteq> 404 \<Longrightarrow>
   queryTaskResult api taskId keys (Response raw) \<noteq> Inl (TaskNotFoundError m)"
  by (simp add: queryTaskResult_def axios_get_def split: sum.splits option.splits)

text \<open>
  Claim C8. With 404 among the statuses the request accepts, \<^verbatim>\<open>queryTaskResult\<close>
  rejects with a \<^verbatim>\<open>TaskNotFoundError\<close> exactly when the response has status 404. For an
  accepted 2xx response whose envelope \<^verbatim>\<open>handleResponse\<close> unwraps, it resolves with the
  outcome of the envelope, and rejects with the error "No result" when the envelope has
  no outcome.
\<close>

theorem queryTaskResult_not_found_iff_404:
  assumes "validTaskStatus api 404"
  shows "((\<exists>m. queryTaskResult api taskId keys reply = Inl (TaskNotFoundError m)) =
            (\<exists>raw. reply = Response raw \<and> status raw = 404)) \<and>
         (reply = Response raw \<and> 200 \<le> status raw \<and> status raw < 300 \<and>
          validTaskStatus api (status raw) \<and>
          handleResponse api
            \<lparr>status = status raw, data = transformer_for api keys (data raw)\<rparr> = Inr value
          \<longrightarrow>
            (outcome value = Some out \<longrightarrow>
               queryTaskResult api taskId keys reply = Inr out) \<and>
            (outcome value = None \<longrightarrow>
               queryTaskResult api taskId keys reply = Inl (Error ''No result'')))"
proof (intro conjI impI)
  show "(\<exists>m. queryTaskResult api taskId keys reply = Inl (TaskNotFoundError m)) =
          (\<exists>raw. reply = Response raw \<and> status raw = 404)"
  proof (cases reply)
    case (NetworkError m)
    then show ?thesis by (simp add: queryTaskResult_no_response)
  next
    case (Response r)
    show ?thesis
    proof (cases "status r = 404")
      case True
      with Response assms show ?thesis by (simp add: queryTaskResult_404)
    next
      case False
      with Response show ?thesis by (simp add: queryTaskResult_not_404)
    qed
  qed
next
  assume "reply = Response raw \<and> 200 \<le> status raw \<and> status raw < 300 \<and>
          validTaskStatus api (status raw) \<and>
          handleResponse api
            \<lparr>status = status raw, data = transformer_for api keys (data raw)\<rparr> = Inr value"
    and "outcome value = Some out"
  then show "queryTaskResult api taskId keys reply = Inr out"
    by (simp add: queryTaskResult_def axios_get_def)
next
  assume "reply = Response raw \<and> 200 \<le> status raw \<and> status raw < 300 \<and>
          validTaskStatus api (status raw) \<and>
          handleResponse api
            \<lparr>status = status raw, data = transformer_for api keys (data raw)\<rparr> = Inr value"
    and "outcome value = None"
  then show "queryTaskResult api taskId keys reply = Inl (Error ''No result'')"
    by (simp add: queryTaskResult_def axios_get_def)
qed

theorem queryTaskResult_not_found_iff_404_witness:
  "validTaskStatus example_api 404 \<and>
   queryTaskResult example_api 7 None (Response \<lparr>status = 404, data = (None, ''No task'')\<rparr>) =
     Inl (TaskNotFoundError ''Task with id 7 not found'') \<and>
   validTaskStatus example_api 200 \<and>
   queryTaskResult example_api 7 None
       (Response \<lparr>status = 200, data = (Some \<lparr>outcome = Some balances_result\<rparr>, '''')\<rparr>) =
     Inr balances_result \<and>
   queryTaskResult example_api 7 None
       (Response \<lparr>status = 200, data = (Some \<lparr>outcome = None\<rparr>, '''')\<rparr>) =
     Inl (Error ''No result'')"
  using queryTaskResult_not_found_iff_404
    [of example_api 7 None "Response \<lparr>status = 404, data = (None, ''No task'')\<rparr>"
        "\<lparr>status = 404, data = (None, ''No task'')\<rparr>"]
    queryTaskResult_not_found_iff_404
    [of example_api 7 None
        "Response \<lparr>status = 200, data = (Some \<lparr>outcome = Some balances_result\<rparr>, '''')\<rparr>"
        "\<lparr>status = 200, data = (Some \<lparr>outcome = Some balances_result\<rparr>, '''')\<rparr>"
        "\<lparr>outcome = Some balances_result\<rparr>" balances_result]
    queryTaskResult_not_found_iff_404
    [of example_api 7 None
        "Response \<lparr>status = 200, data = (Some \<lparr>outcome = None\<rparr>, '''')\<rparr>"
        "\<lparr>status = 200, data = (Some \<lparr>outcome = None\<rparr>, '''')\<rparr>"
        "\<lparr>outcome = None\<rparr>"]
  by (simp add: example_api_def transformer_for_def queryTaskResult_def axios_get_def
      show_nat_digit digit_def)

section \<open>Properties of the account actions\<close>

lemma addAccount_never_rejects: "fst (addAccount tc calls payload s) = None"
  by (simp add: addAccount_def Let_def split: sum.splits prod.splits option.splits)

lemma removeAccount_rejects_iff:
  "(fst (removeAccount tc calls payload s) = Some e) =
     (removeBlockchainAccount calls (payload_blockchain payload) (payload_address payload) = Inl e)"
  by (simp add: removeAccount_def Let_def split: sum.splits prod.splits option.splits)

text \<open>
  Claim C6 against the code: when the request of \<^verbatim>\<open>removeAccount\<close> is rejected, the
  action rejects with the same error and the store is as it was, with no notification;
  \<^verbatim>\<open>addAccount\<close> on the same backend catches the error and notifies. In general the
  promise of \<^verbatim>\<open>removeAccount\<close> rejects exactly when its API call does, and that of
  \<^verbatim>\<open>addAccount\<close> never.
\<close>

theorem removeAccount_api_rejection_escapes:
  "removeAccount tc_key unreachable_backend eth_account_payload empty_system =
     (Some (Error ''Network Error''), empty_system) \<and>
   notifications (snd (removeAccount tc_key unreachable_backend eth_account_payload empty_system))
     = [] \<and>
   addAccount tc_key unreachable_backend eth_account_payload empty_system =
     (None, empty_system\<lparr>notifications :=
        [\<lparr>n_message = ''actions.balances.blockchain_account_add.error.description'',
          n_title = ''actions.balances.blockchain_account_add.error.title'',
          n_severity = ERROR, n_display = True\<rparr>]\<rparr>) \<and>
   (fst (removeAccount tc calls payload s) = Some e) =
     (removeBlockchainAccount calls (payload_blockchain payload) (payload_address payload) = Inl e) \<and>
   fst (addAccount tc calls payload s) = None"
proof -
  have "removeAccount tc_key unreachable_backend eth_account_payload empty_system =
     (Some (Error ''Network Error''), empty_system)"
    by (simp add: removeAccount_def unreachable_backend_def)
  moreover have "addAccount tc_key unreachable_backend eth_account_payload empty_system =
     (None, empty_system\<lparr>notifications :=
        [\<lparr>n_message = ''actions.balances.blockchain_account_add.error.description'',
          n_title = ''actions.balances.blockchain_account_add.error.title'',
          n_severity = ERROR, n_display = True\<rparr>]\<rparr>)"
    by (simp add: addAccount_def unreachable_backend_def notify_def tc_key_def empty_system_def)
  ultimately show ?thesis
    by (simp add: removeAccount_rejects_iff addAccount_never_rejects empty_system_def)
qed

end
